theory Spec2Isabelle
  imports Main "HOL-Library.Sublist" "HOL-Library.AList" "HOL-Library.Word"
begin

section \<open>Service worker (client/public/sw.js): data\<close>

text \<open>
  A request as the fetch listener reads it: \<open>new URL(request.url)\<close> gives the origin and
  the path, \<open>request.method\<close> and \<open>request.destination\<close> are strings. The URL without its
  fragment is what a cache partition keys its entries by, so the query part is kept.
\<close>

record url =
  origin :: string
  pathname :: string
  search :: string

record request =
  req_url :: url
  req_method :: string
  destination :: string

record response =
  status :: nat
  body :: string

text \<open>\<open>response.ok\<close>: the status is in the range 200 to 299.\<close>

definition ok :: "response \<Rightarrow> bool" where
  "ok r = (200 \<le> status r \<and> status r \<le> 299)"

text \<open>
  A cache partition holds request/response pairs keyed by URL; the cache storage is the
  list of named partitions in the order of their creation (the order \<open>caches.keys()\<close>
  reports and \<open>caches.match\<close> searches).
\<close>

type_synonym cache = "(url \<times> response) list"
type_synonym cache_storage = "(string \<times> cache) list"

text \<open>
  The network, as one strategy execution sees it: \<open>fetch(request)\<close> either resolves to a
  response (of any status) or rejects (\<open>None\<close>: the network is unreachable).
\<close>

type_synonym network = "request \<Rightarrow> response option"

datatype error = TypeError | DataError | NotFoundError | URIError | SyntaxError | Thrown string

definition CACHE_PREFIX :: string where
  "CACHE_PREFIX = ''recipes''"

definition CACHE_VERSION :: string where
  "CACHE_VERSION = ''v1''"

text \<open>The template \<open>`${CACHE_PREFIX}-role-${version}`\<close> of the three partition names.\<close>

definition cache_name :: "string \<Rightarrow> string \<Rightarrow> string" where
  "cache_name role version = CACHE_PREFIX @ ''-'' @ role @ ''-'' @ version"

definition PRECACHE_NAME :: string where
  "PRECACHE_NAME = cache_name ''precache'' CACHE_VERSION"

definition RUNTIME_CACHE :: string where
  "RUNTIME_CACHE = cache_name ''runtime'' CACHE_VERSION"

definition IMAGES_CACHE :: string where
  "IMAGES_CACHE = cache_name ''images'' CACHE_VERSION"

definition PRECACHE_URLS :: "string list" where
  "PRECACHE_URLS = [''/'', ''/index.html'', ''/manifest.webmanifest'', ''/offline.html'']"

section \<open>The Cache Storage interface the worker calls\<close>

text \<open>
  The browser's side of \<open>caches.open\<close>, \<open>caches.keys\<close>, \<open>caches.delete\<close>,
  \<open>caches.match\<close>, \<open>cache.match\<close>, \<open>cache.put\<close> and \<open>cache.addAll\<close>, for responses
  that carry a status and a body. The rules of the interface that such requests and
  responses can meet are kept: only a \<open>GET\<close> request matches an entry; \<open>put\<close> rejects
  with a \<open>TypeError\<close> a request that is not a \<open>GET\<close>, a request whose URL is not an
  \<open>http\<close> or \<open>https\<close> one, and a response of status 206 (partial content);
  \<open>addAll\<close> rejects in the same cases and when a response is not \<open>ok\<close>.
\<close>

text \<open>The scheme of a URL, read off its origin (\<open>https://host\<close>, \<open>http://host:port\<close>).\<close>

definition http_scheme :: "url \<Rightarrow> bool" where
  "http_scheme u = (prefix ''http://'' (origin u) \<or> prefix ''https://'' (origin u))"

definition caches_keys :: "cache_storage \<Rightarrow> string list" where
  "caches_keys cs = map fst cs"

text \<open>\<open>caches.open(name)\<close> creates the partition, empty and last, when there is none.\<close>

definition caches_open :: "string \<Rightarrow> cache_storage \<Rightarrow> cache_storage" where
  "caches_open name cs = (if name \<in> set (caches_keys cs) then cs else cs @ [(name, [])])"

definition caches_delete :: "string \<Rightarrow> cache_storage \<Rightarrow> cache_storage" where
  "caches_delete name cs = filter (\<lambda>p. fst p \<noteq> name) cs"

text \<open>The entries of a partition; a partition that does not exist has none.\<close>

definition entries :: "cache_storage \<Rightarrow> string \<Rightarrow> cache" where
  "entries cs name = (case map_of cs name of None \<Rightarrow> [] | Some es \<Rightarrow> es)"

text \<open>\<open>cache.match(request)\<close> on the partition \<open>name\<close>; \<open>None\<close> is \<open>undefined\<close>.\<close>

definition cache_match :: "cache_storage \<Rightarrow> string \<Rightarrow> request \<Rightarrow> response option" where
  "cache_match cs name rq =
     (if req_method rq \<noteq> ''GET'' then None else map_of (entries cs name) (req_url rq))"

text \<open>\<open>caches.match(request)\<close>: the first partition, in creation order, with an entry.\<close>

fun first_match :: "cache_storage \<Rightarrow> url \<Rightarrow> response option" where
  "first_match [] u = None"
| "first_match (p # cs) u =
     (case map_of (snd p) u of Some r \<Rightarrow> Some r | None \<Rightarrow> first_match cs u)"

definition caches_match :: "cache_storage \<Rightarrow> request \<Rightarrow> response option" where
  "caches_match cs rq = (if req_method rq \<noteq> ''GET'' then None else first_match cs (req_url rq))"

text \<open>Storing an entry replaces the entry of the same URL, if any.\<close>

definition put_entry :: "url \<Rightarrow> response \<Rightarrow> cache \<Rightarrow> cache" where
  "put_entry u r es = filter (\<lambda>e. fst e \<noteq> u) es @ [(u, r)]"

definition put_in :: "string \<Rightarrow> url \<Rightarrow> response \<Rightarrow> cache_storage \<Rightarrow> cache_storage" where
  "put_in name u r cs = map (\<lambda>p. if fst p = name then (fst p, put_entry u r (snd p)) else p) cs"

definition cache_put ::
    "string \<Rightarrow> request \<Rightarrow> response \<Rightarrow> cache_storage \<Rightarrow> error + cache_storage" where
  "cache_put name rq r cs =
     (if \<not> http_scheme (req_url rq) \<or> req_method rq \<noteq> ''GET'' then Inl TypeError
      else if status r = 206 then Inl TypeError
      else Inr (put_in name (req_url rq) r cs))"

text \<open>
  The worker never awaits \<open>cache.put\<close> and attaches no handler to its promise: a rejected
  put leaves the storage as it was, and its rejection stays unhandled. \<open>unawaited\<close> gives
  the storage after the put settled together with the unhandled rejection, if any;
  \<open>settled\<close> gives the storage alone.
\<close>

definition unawaited ::
    "cache_storage \<Rightarrow> error + cache_storage \<Rightarrow> cache_storage \<times> error option" where
  "unawaited cs outcome = (case outcome of Inl e \<Rightarrow> (cs, Some e) | Inr cs' \<Rightarrow> (cs', None))"

definition settled :: "cache_storage \<Rightarrow> error + cache_storage \<Rightarrow> cache_storage" where
  "settled cs outcome = (case outcome of Inl e \<Rightarrow> cs | Inr cs' \<Rightarrow> cs')"

text \<open>
  A URL string given in place of a request (\<open>caches.match("/offline.html")\<close>, the entries
  of \<open>PRECACHE_URLS\<close>) is resolved against the worker's own origin and read with \<open>GET\<close>.
\<close>

definition request_of_path :: "string \<Rightarrow> string \<Rightarrow> request" where
  "request_of_path loc p =
     \<lparr>req_url = \<lparr>origin = loc, pathname = p, search = ''''\<rparr>, req_method = ''GET'', destination = ''''\<rparr>"

text \<open>
  \<open>cache.addAll(urls)\<close> rejects at once when a URL is not an \<open>http\<close> or \<open>https\<close>
  one; otherwise it fetches every URL and stores the responses only when every fetch
  resolved with a response that is \<open>ok\<close> and not of status 206; otherwise it rejects and
  stores nothing.
\<close>

definition cache_addAll ::
    "string \<Rightarrow> network \<Rightarrow> string \<Rightarrow> string list \<Rightarrow> cache_storage \<Rightarrow> error + cache_storage" where
  "cache_addAll loc net name urls cs =
     (let rqs = map (request_of_path loc) urls in
      if \<not> list_all (\<lambda>rq. http_scheme (req_url rq)) rqs then Inl TypeError
      else case those (map net rqs) of
        None \<Rightarrow> Inl TypeError
      | Some rs \<Rightarrow>
          if list_all (\<lambda>r. ok r \<and> status r \<noteq> 206) rs
          then Inr (fold (\<lambda>(rq, r). put_in name (req_url rq) r) (zip rqs rs) cs)
          else Inl TypeError)"

section \<open>Service worker: lifecycle\<close>

text \<open>
  The install listener: open the precache partition, then \<open>addAll\<close> the manifest; the
  promise handed to \<open>waitUntil\<close> decides whether the installation succeeds.
\<close>

definition install :: "string \<Rightarrow> network \<Rightarrow> cache_storage \<Rightarrow> (error + unit) \<times> cache_storage" where
  "install loc net cs =
     (let cs1 = caches_open PRECACHE_NAME cs in
      case cache_addAll loc net PRECACHE_NAME PRECACHE_URLS cs1 of
        Inl e \<Rightarrow> (Inl e, cs1)
      | Inr cs2 \<Rightarrow> (Inr (), cs2))"

text \<open>The names the activate listener deletes, and the storage after it deleted them.\<close>

definition stale_names :: "string list \<Rightarrow> string list" where
  "stale_names cacheNames =
     filter (\<lambda>name. name \<noteq> PRECACHE_NAME \<and> name \<noteq> RUNTIME_CACHE \<and> name \<noteq> IMAGES_CACHE)
       (filter (\<lambda>name. prefix CACHE_PREFIX name) cacheNames)"

definition activate :: "cache_storage \<Rightarrow> cache_storage" where
  "activate cs = fold caches_delete (stale_names (caches_keys cs)) cs"

text \<open>The message listener: \<open>CLEAR_CACHE\<close> deletes every partition with the prefix.\<close>

definition clear_cache :: "cache_storage \<Rightarrow> cache_storage" where
  "clear_cache cs = fold caches_delete (filter (\<lambda>name. prefix CACHE_PREFIX name) (caches_keys cs)) cs"

section \<open>Service worker: the fetch listener and its strategies\<close>

datatype strategy = NetworkFirst | StaleWhileRevalidate | CacheFirst

text \<open>
  The fetch listener, given the worker's origin (\<open>location.origin\<close>): \<open>None\<close> when it
  returns without \<open>respondWith\<close> (the request goes to the network untouched), otherwise the
  strategy it hands the request to.
\<close>

definition fetch_listener :: "string \<Rightarrow> request \<Rightarrow> strategy option" where
  "fetch_listener loc rq =
     (if req_method rq \<noteq> ''GET'' then None
      else if origin (req_url rq) \<noteq> loc then None
      else if prefix ''/api'' (pathname (req_url rq)) then Some NetworkFirst
      else if destination rq = ''image'' then Some StaleWhileRevalidate
      else if destination rq = ''style'' \<or> destination rq = ''script'' \<or> destination rq = ''font''
        then Some CacheFirst
      else Some NetworkFirst)"

text \<open>\<open>new Response(msg, { status: 503 })\<close>, the synthetic response of the strategies.\<close>

definition unavailable :: "string \<Rightarrow> response" where
  "unavailable msg = \<lparr>status = 503, body = msg\<rparr>"

text \<open>
  Network-First and Cache-First return what their promise resolves to (\<open>None\<close> is
  \<open>undefined\<close>) and the cache storage they leave.
\<close>

definition networkFirstStrategy ::
    "string \<Rightarrow> network \<Rightarrow> cache_storage \<Rightarrow> request \<Rightarrow> response option \<times> cache_storage" where
  "networkFirstStrategy loc net cs rq =
     (case net rq of
        Some rsp \<Rightarrow>
          if ok rsp \<and> req_method rq = ''GET''
          then (let cs1 = caches_open RUNTIME_CACHE cs
                in (Some rsp, settled cs1 (cache_put RUNTIME_CACHE rq rsp cs1)))
          else (Some rsp, cs)
      | None \<Rightarrow>
          (case caches_match cs rq of
             Some cached \<Rightarrow> (Some cached, cs)
           | None \<Rightarrow>
               if destination rq = ''document''
               then (caches_match cs (request_of_path loc ''/offline.html''), cs)
               else (Some (unavailable ''Offline - No cache available''), cs)))"

text \<open>
  Stale-While-Revalidate is the one strategy whose promise may be resolved while a fetch it
  started is still pending, so its model keeps the two apart. A promise is either resolved
  from what the caches hold, with no answer of the network, or resolved only when the
  awaited fetch has settled, from the outcome of that fetch (\<open>None\<close>: the fetch rejected).
\<close>

datatype 'a promised = Resolved 'a | Resolves_after_fetch "response option \<Rightarrow> 'a"

text \<open>
  The strategy gives the promise it returns and, for each outcome of the one fetch it
  starts, the storage once everything it started has settled and the rejection it left
  unhandled, if any. The handler of \<open>.catch\<close> takes the rejection of the background fetch;
  the promise of \<open>cache.put\<close> is handed to nobody.
\<close>

definition staleWhileRevalidateStrategy ::
    "cache_storage \<Rightarrow> request
       \<Rightarrow> response option promised \<times> (response option \<Rightarrow> cache_storage \<times> error option)" where
  "staleWhileRevalidateStrategy cs rq =
     (let cs1 = caches_open IMAGES_CACHE cs in
      case cache_match cs1 IMAGES_CACHE rq of
        Some cached \<Rightarrow>
          (Resolved (Some cached),
           (\<lambda>fetched. case fetched of
              Some rsp \<Rightarrow>
                if ok rsp then unawaited cs1 (cache_put IMAGES_CACHE rq rsp cs1) else (cs1, None)
            | None \<Rightarrow> (cs1, None)))
      | None \<Rightarrow>
          (Resolves_after_fetch
             (\<lambda>fetched. case fetched of
                Some rsp \<Rightarrow> Some rsp
              | None \<Rightarrow> Some (unavailable ''Image unavailable'')),
           (\<lambda>fetched. case fetched of
              Some rsp \<Rightarrow>
                if ok rsp then unawaited cs1 (cache_put IMAGES_CACHE rq rsp cs1) else (cs1, None)
            | None \<Rightarrow> (cs1, None))))"

text \<open>
  The strategy on a given network: what the promise resolves to and the storage left, as
  for the other two strategies.
\<close>

definition on_network ::
    "network \<Rightarrow> request
       \<Rightarrow> response option promised \<times> (response option \<Rightarrow> cache_storage \<times> error option)
       \<Rightarrow> response option \<times> cache_storage" where
  "on_network net rq run =
     ((case fst run of Resolved x \<Rightarrow> x | Resolves_after_fetch f \<Rightarrow> f (net rq)),
      fst (snd run (net rq)))"

definition cacheFirstStrategy ::
    "network \<Rightarrow> cache_storage \<Rightarrow> request \<Rightarrow> response option \<times> cache_storage" where
  "cacheFirstStrategy net cs rq =
     (let cs1 = caches_open PRECACHE_NAME cs in
      case cache_match cs1 PRECACHE_NAME rq of
        Some cached \<Rightarrow> (Some cached, cs1)
      | None \<Rightarrow>
          (case net rq of
             Some rsp \<Rightarrow>
               (Some rsp,
                if ok rsp \<and> req_method rq = ''GET''
                then settled cs1 (cache_put PRECACHE_NAME rq rsp cs1) else cs1)
           | None \<Rightarrow> (Some (unavailable ''Offline''), cs1)))"

text \<open>The partition each strategy writes to, and the strategy run on a storage.\<close>

fun partition_of :: "strategy \<Rightarrow> string" where
  "partition_of NetworkFirst = RUNTIME_CACHE"
| "partition_of StaleWhileRevalidate = IMAGES_CACHE"
| "partition_of CacheFirst = PRECACHE_NAME"

fun run_strategy ::
    "strategy \<Rightarrow> string \<Rightarrow> network \<Rightarrow> cache_storage \<Rightarrow> request \<Rightarrow> response option \<times> cache_storage" where
  "run_strategy NetworkFirst loc net cs rq = networkFirstStrategy loc net cs rq"
| "run_strategy StaleWhileRevalidate loc net cs rq =
     on_network net rq (staleWhileRevalidateStrategy cs rq)"
| "run_strategy CacheFirst loc net cs rq = cacheFirstStrategy net cs rq"

section \<open>Favorites store (client/src/features/favorites/db.ts)\<close>

text \<open>
  A \<open>Meal\<close> is an object of string-valued fields, \<open>idMeal\<close> among them by its interface;
  a field that is not there is \<open>undefined\<close>.
\<close>

type_synonym meal = "string \<rightharpoonup> string"

text \<open>
  The object store \<open>favorites\<close> of the database \<open>RecipesDB\<close> holds its records under
  the key read from \<open>idMeal\<close>. The state is the module's \<open>dbInstance\<close> (whether the
  connection is held) and the database on disk: \<open>None\<close> before \<open>openDB\<close> ran its upgrade
  for the first time, afterwards the records of the store.
\<close>

record fav_state =
  dbInstance :: bool
  favorites :: "(string \<times> meal) list option"

definition getDB :: "fav_state \<Rightarrow> fav_state" where
  "getDB s =
     (if dbInstance s then s
      else s\<lparr>dbInstance := True,
              favorites := Some (case favorites s of None \<Rightarrow> [] | Some st \<Rightarrow> st)\<rparr>)"

text \<open>
  \<open>db.put\<close> opens a transaction on the store (\<open>NotFoundError\<close> if the store is gone),
  reads the key at the key path (\<open>DataError\<close> if there is none) and stores the record
  under it, replacing the record of that key.
\<close>

definition saveFavorite :: "fav_state \<Rightarrow> meal \<Rightarrow> (error + unit) \<times> fav_state" where
  "saveFavorite s m =
     (let s1 = getDB s in
      case favorites s1 of
        None \<Rightarrow> (Inl NotFoundError, s1)
      | Some st \<Rightarrow>
          (case m ''idMeal'' of
             None \<Rightarrow> (Inl DataError, s1)
           | Some k \<Rightarrow> (Inr (), s1\<lparr>favorites := Some (AList.update k m st)\<rparr>)))"

definition removeFavorite :: "fav_state \<Rightarrow> string \<Rightarrow> (error + unit) \<times> fav_state" where
  "removeFavorite s mealId =
     (let s1 = getDB s in
      case favorites s1 of
        None \<Rightarrow> (Inl NotFoundError, s1)
      | Some st \<Rightarrow> (Inr (), s1\<lparr>favorites := Some (AList.delete mealId st)\<rparr>))"

text \<open>\<open>getFavorite\<close> resolves to the record or to \<open>undefined\<close> (\<open>None\<close>).\<close>

definition getFavorite :: "fav_state \<Rightarrow> string \<Rightarrow> (error + meal option) \<times> fav_state" where
  "getFavorite s mealId =
     (let s1 = getDB s in
      case favorites s1 of
        None \<Rightarrow> (Inl NotFoundError, s1)
      | Some st \<Rightarrow> (Inr (map_of st mealId), s1))"

definition clearFavorites :: "fav_state \<Rightarrow> (error + unit) \<times> fav_state" where
  "clearFavorites s =
     (let s1 = getDB s in
      case favorites s1 of
        None \<Rightarrow> (Inl NotFoundError, s1)
      | Some st \<Rightarrow> (Inr (), s1\<lparr>favorites := Some []\<rparr>))"

text \<open>The records on disk, and the state of a page that has not used the store yet.\<close>

definition records :: "fav_state \<Rightarrow> (string \<times> meal) list" where
  "records s = (case favorites s of None \<Rightarrow> [] | Some st \<Rightarrow> st)"

definition fresh :: fav_state where
  "fresh = \<lparr>dbInstance = False, favorites = None\<rparr>"

text \<open>A page reload drops the connection and keeps the disk.\<close>

definition reload :: "fav_state \<Rightarrow> fav_state" where
  "reload s = s\<lparr>dbInstance := False\<rparr>"

text \<open>
  What holds of every state the module reaches: a held connection has its store, and no
  two records share a key.
\<close>

definition store_inv :: "fav_state \<Rightarrow> bool" where
  "store_inv s = ((dbInstance s \<longrightarrow> favorites s \<noteq> None) \<and> distinct (map fst (records s)))"

text \<open>The states the module reaches from a fresh one by its operations and by reloads.\<close>

inductive reachable :: "fav_state \<Rightarrow> bool" where
  start: "reachable fresh"
| save: "reachable s \<Longrightarrow> reachable (snd (saveFavorite s m))"
| remove: "reachable s \<Longrightarrow> reachable (snd (removeFavorite s mealId))"
| get: "reachable s \<Longrightarrow> reachable (snd (getFavorite s mealId))"
| clear: "reachable s \<Longrightarrow> reachable (snd (clearFavorites s))"
| restart: "reachable s \<Longrightarrow> reachable (reload s)"

section \<open>API client (client/src/lib/api.ts): searchMeals\<close>

text \<open>
  A JavaScript string is a sequence of 16-bit code units. \<open>trim\<close> removes from both ends
  the code units of ECMAScript's WhiteSpace and LineTerminator productions.
\<close>

type_synonym jsstring = "16 word list"

definition white_space :: "16 word \<Rightarrow> bool" where
  "white_space c =
     (c \<in> {0x9, 0xA, 0xB, 0xC, 0xD, 0x20, 0xA0, 0x1680, 0x2028, 0x2029, 0x202F, 0x205F,
            0x3000, 0xFEFF} \<or> (0x2000 \<le> c \<and> c \<le> 0x200A))"

definition trim :: "jsstring \<Rightarrow> jsstring" where
  "trim q = rev (dropWhile white_space (rev (dropWhile white_space q)))"

definition API_BASE :: string where
  "API_BASE = ''/api''"

text \<open>
  What \<open>fetch\<close> resolves to, as \<open>searchMeals\<close> reads it: \<open>response.ok\<close>, and the value of
  \<open>response.json()\<close>: \<open>None\<close> when the body is not JSON, otherwise the \<open>meals\<close> field
  of the \<open>SearchResponse\<close>, \<open>None\<close> for \<open>null\<close>.
\<close>

record api_response =
  api_ok :: bool
  api_json :: "meal list option option"

text \<open>
  \<open>searchMeals\<close>, given \<open>encodeURIComponent\<close> (\<open>None\<close>: it throws \<open>URIError\<close>) and
  \<open>fetch\<close> (\<open>None\<close>: it rejects). It returns the list or the error thrown, and the URLs it
  fetched.
\<close>

definition searchMeals ::
    "(jsstring \<Rightarrow> string option) \<Rightarrow> (string \<Rightarrow> api_response option) \<Rightarrow> jsstring
       \<Rightarrow> (error + meal list) \<times> string list" where
  "searchMeals encodeURIComponent fetch query =
     (if trim query = [] then (Inr [], [])
      else case encodeURIComponent query of
        None \<Rightarrow> (Inl URIError, [])
      | Some q \<Rightarrow>
          (let u = API_BASE @ ''/search?s='' @ q in
           case fetch u of
             None \<Rightarrow> (Inl TypeError, [u])
           | Some rsp \<Rightarrow>
               if \<not> api_ok rsp then (Inl (Thrown ''Failed to search meals''), [u])
               else (case api_json rsp of
                       None \<Rightarrow> (Inl SyntaxError, [u])
                     | Some data \<Rightarrow> (Inr (case data of None \<Rightarrow> [] | Some ms \<Rightarrow> ms), [u]))))"

section \<open>Sample requests, responses and networks\<close>

text \<open>
  The values at which the statements below are instantiated: a site, its URLs and \<open>GET\<close>
  requests, a response with status 200, a partial response (status 206), a network that is
  unreachable and one that answers every request with the same response.
\<close>

definition site :: string where
  "site = ''https://recipes.example''"

definition site_url :: "string \<Rightarrow> url" where
  "site_url p = \<lparr>origin = site, pathname = p, search = ''''\<rparr>"

definition site_get :: "string \<Rightarrow> string \<Rightarrow> request" where
  "site_get p d = \<lparr>req_url = site_url p, req_method = ''GET'', destination = d\<rparr>"

definition page :: "string \<Rightarrow> response" where
  "page b = \<lparr>status = 200, body = b\<rparr>"


definition unreachable :: network where
  "unreachable rq = None"

definition answering :: "response \<Rightarrow> network" where
  "answering r rq = Some r"

text \<open>A meal as TheMealDB returns it, cut to three fields, and an older snapshot of it.\<close>

definition teriyaki :: meal where
  "teriyaki = [''idMeal'' \<mapsto> ''52772'', ''strMeal'' \<mapsto> ''Teriyaki Chicken Casserole'',
               ''strCategory'' \<mapsto> ''Chicken'']"

definition teriyaki_old :: meal where
  "teriyaki_old = [''idMeal'' \<mapsto> ''52772'', ''strMeal'' \<mapsto> ''Teriyaki Chicken'']"

definition one_favorite :: fav_state where
  "one_favorite = \<lparr>dbInstance = True, favorites = Some [(''52772'', teriyaki_old)]\<rparr>"

section \<open>The specification on Network-First after a network failure\<close>


section \<open>Sample storages and networks\<close>

text \<open>
  A network that answers every request with a page naming a release and the path asked
  for; the storage after release \<open>A\<close> was installed; and that storage after the root
  document was then fetched through Network-First while release \<open>B\<close> was being served.
\<close>

definition serving :: "string \<Rightarrow> network" where
  "serving release rq = Some (page (release @ pathname (req_url rq)))"

definition installed :: cache_storage where
  "installed = snd (install site (serving ''A'') [])"



definition logo :: request where
  "logo = site_get ''/logo.png'' ''image''"


lemmas sample_defs = site_def site_url_def site_get_def page_def unreachable_def answering_def
  serving_def

lemmas name_defs = PRECACHE_NAME_def RUNTIME_CACHE_def IMAGES_CACHE_def cache_name_def
  CACHE_PREFIX_def CACHE_VERSION_def

section \<open>Facts about the cache storage\<close>

lemma partition_names_distinct:
  "PRECACHE_NAME \<noteq> RUNTIME_CACHE" "PRECACHE_NAME \<noteq> IMAGES_CACHE" "RUNTIME_CACHE \<noteq> IMAGES_CACHE"
  by (simp_all add: PRECACHE_NAME_def RUNTIME_CACHE_def IMAGES_CACHE_def cache_name_def)

lemma map_of_put_entry:
  "map_of (put_entry u r es) v = (if v = u then Some r else map_of es v)"
proof -
  have "map_of (filter (\<lambda>e. fst e \<noteq> u) es) v = (if v = u then None else map_of es v)"
    by (induction es) auto
  then show ?thesis
    by (auto simp: put_entry_def map_add_def split: option.splits)
qed

lemma caches_keys_put_in: "caches_keys (put_in n u r cs) = caches_keys cs"
  by (induction cs) (auto simp: put_in_def caches_keys_def)

lemma map_of_put_in:
  "map_of (put_in n u r cs) m =
     (if m = n then map_option (put_entry u r) (map_of cs n) else map_of cs m)"
  by (induction cs) (auto simp: put_in_def)

lemma entries_put_in:
  "n \<in> set (caches_keys cs) \<Longrightarrow>
     entries (put_in n u r cs) m = (if m = n then put_entry u r (entries cs n) else entries cs m)"
proof -
  assume "n \<in> set (caches_keys cs)"
  then obtain es where "map_of cs n = Some es"
    by (metis caches_keys_def domD dom_map_of_conv_image_fst list.set_map)
  then show ?thesis
    by (simp add: entries_def map_of_put_in)
qed

lemma entries_caches_open: "entries (caches_open n cs) m = entries cs m"
proof (cases "n \<in> set (caches_keys cs)")
  case True
  then show ?thesis by (simp add: caches_open_def)
next
  case False
  then have "map_of cs n = None"
    by (simp add: caches_keys_def map_of_eq_None_iff)
  then show ?thesis
    using False by (simp add: caches_open_def entries_def map_add_def split: option.splits)
qed

lemma caches_keys_caches_open:
  "set (caches_keys (caches_open n cs)) = insert n (set (caches_keys cs))"
  by (auto simp: caches_open_def caches_keys_def)


lemma entries_put_open:
  "entries (put_in n u r (caches_open n cs)) m =
     (if m = n then put_entry u r (entries cs n) else entries cs m)"
  by (simp add: entries_put_in caches_keys_caches_open entries_caches_open)

lemma keys_put_open:
  "set (caches_keys (put_in n u r (caches_open n cs))) = insert n (set (caches_keys cs))"
  by (simp add: caches_keys_put_in caches_keys_caches_open)

lemma fold_caches_delete:
  "fold caches_delete ns cs = filter (\<lambda>p. fst p \<notin> set ns) cs"
proof (induction ns arbitrary: cs)
  case Nil
  show ?case by simp
next
  case (Cons n ns)
  show ?case by (simp add: Cons.IH) (simp add: caches_delete_def conj_commute)
qed

section \<open>Activation\<close>

lemma stale_names_set:
  "set (stale_names ns) =
     {n \<in> set ns. prefix CACHE_PREFIX n \<and> n \<notin> {PRECACHE_NAME, RUNTIME_CACHE, IMAGES_CACHE}}"
  by (auto simp: stale_names_def)

lemma activate_filter:
  "activate cs =
     filter (\<lambda>p. \<not> (prefix CACHE_PREFIX (fst p)
                     \<and> fst p \<notin> {PRECACHE_NAME, RUNTIME_CACHE, IMAGES_CACHE})) cs"
  unfolding activate_def fold_caches_delete stale_names_set caches_keys_def
  by (rule filter_cong) auto

lemma cache_name_prefix: "prefix CACHE_PREFIX (cache_name role v)"
  by (simp add: cache_name_def)

lemma cache_name_version:
  "role \<in> {''precache'', ''runtime'', ''images''} \<Longrightarrow> v \<noteq> CACHE_VERSION \<Longrightarrow>
     cache_name role v \<notin> {PRECACHE_NAME, RUNTIME_CACHE, IMAGES_CACHE}"
  by (auto simp: cache_name_def PRECACHE_NAME_def RUNTIME_CACHE_def IMAGES_CACHE_def CACHE_PREFIX_def)

text \<open>
  Claim C4. The activate listener deletes exactly the partitions whose name starts with
  the prefix and is none of the three current names: the names left are the old ones
  without those, in the same order; every partition that is not of that kind is left as it
  was; the names left that start with the prefix are current ones; and no name that the
  template gives for one of the three roles at another version is left.
\<close>

theorem activate_deletes_stale:
  "caches_keys (activate cs) =
     filter (\<lambda>n. \<not> (prefix CACHE_PREFIX n \<and> n \<notin> {PRECACHE_NAME, RUNTIME_CACHE, IMAGES_CACHE}))
       (caches_keys cs)
   \<and> (\<forall>p \<in> set cs. p \<in> set (activate cs) \<or>
         (prefix CACHE_PREFIX (fst p) \<and> fst p \<notin> {PRECACHE_NAME, RUNTIME_CACHE, IMAGES_CACHE}))
   \<and> (\<forall>n \<in> set (caches_keys (activate cs)).
         prefix CACHE_PREFIX n \<longrightarrow> n \<in> {PRECACHE_NAME, RUNTIME_CACHE, IMAGES_CACHE})
   \<and> (\<forall>role \<in> {''precache'', ''runtime'', ''images''}. \<forall>v. v \<noteq> CACHE_VERSION \<longrightarrow>
         cache_name role v \<notin> set (caches_keys (activate cs)))"
proof (intro conjI)
  show "caches_keys (activate cs) =
     filter (\<lambda>n. \<not> (prefix CACHE_PREFIX n \<and> n \<notin> {PRECACHE_NAME, RUNTIME_CACHE, IMAGES_CACHE}))
       (caches_keys cs)"
    by (simp add: activate_filter caches_keys_def filter_map comp_def)
  show "\<forall>p \<in> set cs. p \<in> set (activate cs) \<or>
         (prefix CACHE_PREFIX (fst p) \<and> fst p \<notin> {PRECACHE_NAME, RUNTIME_CACHE, IMAGES_CACHE})"
    by (auto simp: activate_filter)
  show "\<forall>n \<in> set (caches_keys (activate cs)).
         prefix CACHE_PREFIX n \<longrightarrow> n \<in> {PRECACHE_NAME, RUNTIME_CACHE, IMAGES_CACHE}"
    by (auto simp: activate_filter caches_keys_def)
  show "\<forall>role \<in> {''precache'', ''runtime'', ''images''}. \<forall>v. v \<noteq> CACHE_VERSION \<longrightarrow>
         cache_name role v \<notin> set (caches_keys (activate cs))"
  proof (intro ballI allI impI)
    fix role v
    assume r: "role \<in> {''precache'', ''runtime'', ''images''}" and v: "v \<noteq> CACHE_VERSION"
    have "cache_name role v \<notin> {PRECACHE_NAME, RUNTIME_CACHE, IMAGES_CACHE}"
      using cache_name_version [OF r v] .
    then show "cache_name role v \<notin> set (caches_keys (activate cs))"
      using cache_name_prefix [of role v]
      by (auto simp: activate_filter caches_keys_def)
  qed
qed

text \<open>
  At a storage left by version \<open>v0\<close> and then used by version \<open>v1\<close>, next to a
  partition of another application: the two \<open>v0\<close> partitions go, the rest stays.
\<close>

theorem activate_deletes_stale_witness:
  "caches_keys (activate [(''recipes-precache-v0'', []), (''recipes-precache-v1'', []),
        (''other'', []), (''recipes-runtime-v1'', []), (''recipes-images-v0'', [])])
     = [''recipes-precache-v1'', ''other'', ''recipes-runtime-v1'']
   \<and> ''v0'' \<noteq> CACHE_VERSION
   \<and> cache_name ''images'' ''v0'' \<notin> set (caches_keys (activate [(''recipes-precache-v0'', []),
        (''recipes-precache-v1'', []), (''other'', []), (''recipes-runtime-v1'', []),
        (''recipes-images-v0'', [])]))"
  using activate_deletes_stale [of "[(''recipes-precache-v0'', []), (''recipes-precache-v1'', []),
        (''other'', []), (''recipes-runtime-v1'', []), (''recipes-images-v0'', [])]"]
  by (simp add: caches_keys_def cache_name_def CACHE_PREFIX_def CACHE_VERSION_def
        PRECACHE_NAME_def RUNTIME_CACHE_def IMAGES_CACHE_def)

section \<open>The fetch listener\<close>

text \<open>
  Claim C5. The fetch listener hands a request to a strategy exactly when the request is a
  \<open>GET\<close> to the worker's own origin, and every other request passes through. A request it
  takes goes to one strategy, the first that applies: Network-First when the path starts
  with \<open>/api\<close>; otherwise Stale-While-Revalidate for the destination \<open>image\<close>;
  otherwise Cache-First for \<open>style\<close>, \<open>script\<close> or \<open>font\<close>; otherwise Network-First.
\<close>

theorem fetch_listener_classification:
  "(fetch_listener loc rq \<noteq> None \<longleftrightarrow> req_method rq = ''GET'' \<and> origin (req_url rq) = loc)
   \<and> (fetch_listener loc rq \<noteq> None \<longrightarrow>
        fetch_listener loc rq =
          Some (if prefix ''/api'' (pathname (req_url rq)) then NetworkFirst
                else if destination rq = ''image'' then StaleWhileRevalidate
                else if destination rq \<in> {''style'', ''script'', ''font''} then CacheFirst
                else NetworkFirst))"
  by (simp add: fetch_listener_def)

theorem fetch_listener_classification_witness:
  "fetch_listener site (site_get ''/api/random'' ''image'') = Some NetworkFirst
   \<and> fetch_listener site (site_get ''/logo.png'' ''image'') = Some StaleWhileRevalidate
   \<and> fetch_listener site (site_get ''/app.js'' ''script'') = Some CacheFirst
   \<and> fetch_listener site (site_get ''/'' ''document'') = Some NetworkFirst
   \<and> fetch_listener site ((site_get ''/api/x'' '''')\<lparr>req_method := ''POST''\<rparr>) = None
   \<and> fetch_listener ''https://www.themealdb.com'' (site_get ''/a.png'' ''image'') = None"
  using
    fetch_listener_classification [of site "site_get ''/api/random'' ''image''"]
    fetch_listener_classification [of site "site_get ''/logo.png'' ''image''"]
    fetch_listener_classification [of site "site_get ''/app.js'' ''script''"]
    fetch_listener_classification [of site "site_get ''/'' ''document''"]
    fetch_listener_classification [of site "(site_get ''/api/x'' '''')\<lparr>req_method := ''POST''\<rparr>"]
    fetch_listener_classification [of "''https://www.themealdb.com''" "site_get ''/a.png'' ''image''"]
  by (simp add: site_get_def site_url_def site_def)

section \<open>What a strategy writes\<close>

lemma networkFirst_storage:
  "snd (networkFirstStrategy loc net cs rq) = cs
   \<or> snd (networkFirstStrategy loc net cs rq) = caches_open RUNTIME_CACHE cs
   \<or> (\<exists>rsp. net rq = Some rsp \<and> ok rsp \<and> req_method rq = ''GET''
         \<and> snd (networkFirstStrategy loc net cs rq)
             = put_in RUNTIME_CACHE (req_url rq) rsp (caches_open RUNTIME_CACHE cs))"
  by (simp add: networkFirstStrategy_def settled_def cache_put_def Let_def split: option.splits)

lemma staleWhileRevalidate_storage:
  "snd (on_network net rq (staleWhileRevalidateStrategy cs rq)) = caches_open IMAGES_CACHE cs
   \<or> (\<exists>rsp. net rq = Some rsp \<and> ok rsp \<and> req_method rq = ''GET''
         \<and> snd (on_network net rq (staleWhileRevalidateStrategy cs rq))
             = put_in IMAGES_CACHE (req_url rq) rsp (caches_open IMAGES_CACHE cs))"
  by (simp add: on_network_def staleWhileRevalidateStrategy_def unawaited_def cache_put_def
      Let_def split: option.splits)

lemma cacheFirst_storage:
  "snd (cacheFirstStrategy net cs rq) = caches_open PRECACHE_NAME cs
   \<or> (\<exists>rsp. net rq = Some rsp \<and> ok rsp \<and> req_method rq = ''GET''
         \<and> snd (cacheFirstStrategy net cs rq)
             = put_in PRECACHE_NAME (req_url rq) rsp (caches_open PRECACHE_NAME cs))"
  by (simp add: cacheFirstStrategy_def settled_def cache_put_def Let_def split: option.splits)

lemma run_strategy_storage:
  "snd (run_strategy s loc net cs rq) = cs
   \<or> snd (run_strategy s loc net cs rq) = caches_open (partition_of s) cs
   \<or> (\<exists>rsp. net rq = Some rsp \<and> ok rsp \<and> req_method rq = ''GET''
         \<and> snd (run_strategy s loc net cs rq)
             = put_in (partition_of s) (req_url rq) rsp (caches_open (partition_of s) cs))"
proof (cases s)
  case NetworkFirst
  then show ?thesis using networkFirst_storage [of loc net cs rq] by auto
next
  case StaleWhileRevalidate
  then show ?thesis using staleWhileRevalidate_storage [of net rq cs] by auto
next
  case CacheFirst
  then show ?thesis using cacheFirst_storage [of net cs rq] by auto
qed

text \<open>
  Claim C3. Whatever the strategy, the request, the network and the storage, one execution
  leaves the entries of every partition but its own as they were; its own partition
  (runtime for Network-First, images for Stale-While-Revalidate, precache for Cache-First)
  is left as it was or gets one entry, for this request, which is a \<open>GET\<close>, holding the
  response the network gave, which is \<open>ok\<close>; no partition disappears and every entry that
  was there is still there (under its URL, with the new response if it was the one
  replaced).
\<close>

theorem strategies_write_discipline:
  assumes run: "run_strategy s loc net cs rq = (out, cs')"
  shows "(\<forall>n. n \<noteq> partition_of s \<longrightarrow> entries cs' n = entries cs n)
       \<and> (entries cs' (partition_of s) = entries cs (partition_of s)
          \<or> (\<exists>rsp. net rq = Some rsp \<and> ok rsp \<and> req_method rq = ''GET''
               \<and> entries cs' (partition_of s)
                   = put_entry (req_url rq) rsp (entries cs (partition_of s))))
       \<and> set (caches_keys cs) \<subseteq> set (caches_keys cs')
       \<and> (\<forall>n u. map_of (entries cs n) u \<noteq> None \<longrightarrow> map_of (entries cs' n) u \<noteq> None)"
proof -
  have cs': "cs' = snd (run_strategy s loc net cs rq)"
    using run by simp
  consider (same) "cs' = cs"
    | (opened) "cs' = caches_open (partition_of s) cs"
    | (put) rsp where "net rq = Some rsp" "ok rsp" "req_method rq = ''GET''"
        "cs' = put_in (partition_of s) (req_url rq) rsp (caches_open (partition_of s) cs)"
    using run_strategy_storage [of s loc net cs rq] cs' by auto
  then show ?thesis
  proof cases
    case same
    then show ?thesis by simp
  next
    case opened
    then show ?thesis
      by (auto simp: entries_caches_open caches_keys_caches_open)
  next
    case put
    have other: "\<forall>n. n \<noteq> partition_of s \<longrightarrow> entries cs' n = entries cs n"
      by (simp add: put(4) entries_put_open)
    have own: "entries cs' (partition_of s)
        = put_entry (req_url rq) rsp (entries cs (partition_of s))"
      by (simp add: put(4) entries_put_open)
    have keys: "set (caches_keys cs) \<subseteq> set (caches_keys cs')"
      by (auto simp: put(4) keys_put_open)
    have kept: "\<forall>n u. map_of (entries cs n) u \<noteq> None \<longrightarrow> map_of (entries cs' n) u \<noteq> None"
      by (simp add: put(4) entries_put_open map_of_put_entry)
    from other own keys kept put(1-3) show ?thesis by blast
  qed
qed

text \<open>
  An API request answered by the network, on a storage that holds the precached root
  document: the response goes into the runtime partition and the precache keeps its entry.
\<close>

theorem strategies_write_discipline_witness:
  "run_strategy NetworkFirst site (answering (page ''{}''))
       [(PRECACHE_NAME, [(site_url ''/'', page ''shell'')])] (site_get ''/api/random'' '''')
     = (Some (page ''{}''),
        [(PRECACHE_NAME, [(site_url ''/'', page ''shell'')]),
         (RUNTIME_CACHE, [(site_url ''/api/random'', page ''{}'')])])
   \<and> entries [(PRECACHE_NAME, [(site_url ''/'', page ''shell'')]),
               (RUNTIME_CACHE, [(site_url ''/api/random'', page ''{}'')])] PRECACHE_NAME
       = entries [(PRECACHE_NAME, [(site_url ''/'', page ''shell'')])] PRECACHE_NAME
   \<and> ok (page ''{}'')
   \<and> req_method (site_get ''/api/random'' '''') = ''GET''
   \<and> map_of (entries [(PRECACHE_NAME, [(site_url ''/'', page ''shell'')]),
               (RUNTIME_CACHE, [(site_url ''/api/random'', page ''{}'')])] PRECACHE_NAME)
         (site_url ''/'') \<noteq> None"
proof -
  let ?cs = "[(PRECACHE_NAME, [(site_url ''/'', page ''shell'')])]"
  let ?cs' = "[(PRECACHE_NAME, [(site_url ''/'', page ''shell'')]),
               (RUNTIME_CACHE, [(site_url ''/api/random'', page ''{}'')])]"
  have h: "run_strategy NetworkFirst site (answering (page ''{}'')) ?cs
             (site_get ''/api/random'' '''') = (Some (page ''{}''), ?cs')"
    using partition_names_distinct
    by (simp add: networkFirstStrategy_def ok_def caches_open_def caches_keys_def settled_def
        cache_put_def put_in_def put_entry_def http_scheme_def Let_def sample_defs)
  note c = strategies_write_discipline [OF h]
  have other: "entries ?cs' PRECACHE_NAME = entries ?cs PRECACHE_NAME"
    using c partition_names_distinct by simp
  have kept: "map_of (entries ?cs' PRECACHE_NAME) (site_url ''/'') \<noteq> None"
  proof -
    have "map_of (entries ?cs PRECACHE_NAME) (site_url ''/'') \<noteq> None"
      by (simp add: entries_def)
    with c show ?thesis by blast
  qed
  have okr: "ok (page ''{}'')" by (simp add: ok_def page_def)
  have get: "req_method (site_get ''/api/random'' '''') = ''GET''" by (simp add: site_get_def)
  from h other okr get kept show ?thesis by blast
qed

section \<open>Network-First\<close>

lemma installed_eq:
  "installed = [(PRECACHE_NAME,
     [(site_url ''/'', page ''A/''), (site_url ''/index.html'', page ''A/index.html''),
      (site_url ''/manifest.webmanifest'', page ''A/manifest.webmanifest''),
      (site_url ''/offline.html'', page ''A/offline.html'')])]"
  by (simp add: installed_def install_def cache_addAll_def PRECACHE_URLS_def caches_open_def
      caches_keys_def request_of_path_def ok_def put_in_def put_entry_def http_scheme_def
      Let_def sample_defs)



text \<open>
  Claim C2 at the input where the code breaks it. After \<open>CLEAR_CACHE\<close> the storage is
  empty; a document request while the network is down then resolves to \<open>undefined\<close>, no
  response at all, where an API request in the same situation gets the synthetic
  response.
\<close>

theorem networkFirst_document_undefined:
  "clear_cache installed = []
   \<and> unreachable (site_get ''/'' ''document'') = None
   \<and> fst (networkFirstStrategy site unreachable (clear_cache installed) (site_get ''/'' ''document''))
       = None
   \<and> fst (networkFirstStrategy site unreachable (clear_cache installed) (site_get ''/api/random'' ''''))
       = Some (unavailable ''Offline - No cache available'')"
proof -
  have "clear_cache installed = []"
    by (simp add: installed_eq clear_cache_def caches_keys_def caches_delete_def name_defs)
  then show ?thesis
    by (simp add: networkFirstStrategy_def caches_match_def sample_defs)
qed

lemma staleWhileRevalidate_responds:
  "fst (on_network net rq (staleWhileRevalidateStrategy cs rq)) \<noteq> None"
  by (simp add: on_network_def staleWhileRevalidateStrategy_def Let_def split: option.splits)

lemma cacheFirst_responds: "fst (cacheFirstStrategy net cs rq) \<noteq> None"
  by (simp add: cacheFirstStrategy_def Let_def split: option.splits)

lemma networkFirst_undefined_iff:
  "fst (networkFirstStrategy loc net cs rq) = None \<longleftrightarrow>
     net rq = None \<and> caches_match cs rq = None \<and> destination rq = ''document''
     \<and> caches_match cs (request_of_path loc ''/offline.html'') = None"
  by (auto simp: networkFirstStrategy_def Let_def split: option.splits)







section \<open>Stale-While-Revalidate\<close>








section \<open>Installation\<close>








section \<open>The favorites store\<close>

lemma favorites_getDB: "store_inv s \<Longrightarrow> favorites (getDB s) = Some (records s)"
  by (auto simp: store_inv_def getDB_def records_def split: option.splits)

lemma dbInstance_getDB: "dbInstance (getDB s)"
  by (simp add: getDB_def)

lemma store_inv_fresh: "store_inv fresh"
  by (simp add: store_inv_def fresh_def records_def)

lemma store_inv_reload: "store_inv s \<Longrightarrow> store_inv (reload s)"
  by (simp add: store_inv_def reload_def records_def)

lemma records_saveFavorite:
  "store_inv s \<Longrightarrow> m ''idMeal'' = Some k \<Longrightarrow>
     saveFavorite s m = (Inr (), (getDB s)\<lparr>favorites := Some (AList.update k m (records s))\<rparr>)"
  by (simp add: saveFavorite_def favorites_getDB)

lemma records_removeFavorite:
  "store_inv s \<Longrightarrow>
     removeFavorite s k = (Inr (), (getDB s)\<lparr>favorites := Some (AList.delete k (records s))\<rparr>)"
  by (simp add: removeFavorite_def favorites_getDB)

lemma getFavorite_eq:
  "store_inv s \<Longrightarrow> getFavorite s k = (Inr (map_of (records s) k), getDB s)"
  by (simp add: getFavorite_def favorites_getDB)

lemma store_inv_getDB: "store_inv s \<Longrightarrow> store_inv (getDB s)"
  by (auto simp: store_inv_def getDB_def records_def split: option.splits)

lemma store_inv_saveFavorite: "store_inv s \<Longrightarrow> store_inv (snd (saveFavorite s m))"
proof (cases "m ''idMeal''")
  case None
  assume "store_inv s"
  then show ?thesis
    using None by (simp add: saveFavorite_def favorites_getDB store_inv_getDB)
next
  case (Some k)
  assume inv: "store_inv s"
  then have "distinct (map fst (AList.update k m (records s)))"
    by (simp add: store_inv_def distinct_update)
  then show ?thesis
    by (simp add: records_saveFavorite [of s m k, OF inv Some] store_inv_def records_def)
qed

lemma store_inv_removeFavorite: "store_inv s \<Longrightarrow> store_inv (snd (removeFavorite s k))"
proof -
  assume inv: "store_inv s"
  then have "distinct (map fst (AList.delete k (records s)))"
    by (simp add: store_inv_def distinct_delete)
  then show ?thesis
    by (simp add: records_removeFavorite [OF inv] store_inv_def records_def)
qed

lemma store_inv_getFavorite: "store_inv s \<Longrightarrow> store_inv (snd (getFavorite s k))"
  by (simp add: getFavorite_eq store_inv_getDB)

lemma store_inv_clearFavorites: "store_inv s \<Longrightarrow> store_inv (snd (clearFavorites s))"
  by (simp add: clearFavorites_def favorites_getDB store_inv_def records_def)

lemma reachable_store_inv: "reachable s \<Longrightarrow> store_inv s"
  by (induction rule: reachable.induct)
     (simp_all add: store_inv_fresh store_inv_saveFavorite store_inv_removeFavorite
        store_inv_getFavorite store_inv_clearFavorites store_inv_reload)

lemma one_record_per_key:
  "distinct (map fst xs) \<Longrightarrow> k \<in> fst ` set xs \<Longrightarrow> length (filter (\<lambda>e. fst e = k) xs) = 1"
proof (induction xs)
  case Nil
  then show ?case by simp
next
  case (Cons x xs)
  show ?case
  proof (cases "fst x = k")
    case True
    from Cons.prems True have "k \<notin> fst ` set xs"
      by auto
    then have "\<forall>e \<in> set xs. fst e \<noteq> k"
      by (metis imageI)
    then have "filter (\<lambda>e. fst e = k) xs = []"
      by (simp add: filter_empty_conv)
    with True show ?thesis by simp
  next
    case False
    with Cons show ?thesis by auto
  qed
qed

text \<open>
  Claim C6. For a meal whose \<open>idMeal\<close> is present, in every state with the store's
  invariant (every state the module reaches has it):
  \<open>saveFavorite\<close> succeeds; \<open>getFavorite\<close> of that id right after it, and also after a
  reload of the page, gives the meal saved; the store then holds exactly one record of that
  id, its keys are the former keys and that id, and the records of the other ids are as
  before. No function of the store takes the network as an argument.
\<close>

theorem save_then_get:
  assumes inv: "store_inv s" and key: "m ''idMeal'' = Some k"
  shows "fst (saveFavorite s m) = Inr ()
       \<and> fst (getFavorite (snd (saveFavorite s m)) k) = Inr (Some m)
       \<and> fst (getFavorite (reload (snd (saveFavorite s m))) k) = Inr (Some m)
       \<and> store_inv (snd (saveFavorite s m))
       \<and> length (filter (\<lambda>e. fst e = k) (records (snd (saveFavorite s m)))) = 1
       \<and> set (map fst (records (snd (saveFavorite s m)))) = insert k (set (map fst (records s)))
       \<and> (\<forall>j. j \<noteq> k \<longrightarrow>
             map_of (records (snd (saveFavorite s m))) j = map_of (records s) j)"
proof -
  let ?s' = "snd (saveFavorite s m)"
  have saved: "saveFavorite s m
      = (Inr (), (getDB s)\<lparr>favorites := Some (AList.update k m (records s))\<rparr>)"
    using records_saveFavorite [of s m k, OF inv key] .
  have recs: "records ?s' = AList.update k m (records s)"
    by (simp add: saved records_def)
  have inv': "store_inv ?s'"
    using store_inv_saveFavorite [OF inv] .
  have reloaded: "records (reload ?s') = records ?s'"
    by (simp add: reload_def records_def)
  have found: "map_of (records ?s') k = Some m"
    by (simp add: recs update_conv')
  have keys: "set (map fst (records ?s')) = insert k (set (map fst (records s)))"
    using dom_update [of k m "records s"] by (simp add: recs)
  have one: "length (filter (\<lambda>e. fst e = k) (records ?s')) = 1"
  proof (rule one_record_per_key)
    show "distinct (map fst (records ?s'))"
      using inv' by (simp add: store_inv_def)
    show "k \<in> fst ` set (records ?s')"
      using keys by simp
  qed
  have others: "\<forall>j. j \<noteq> k \<longrightarrow> map_of (records ?s') j = map_of (records s) j"
    by (simp add: recs update_conv')
  have g1: "fst (getFavorite ?s' k) = Inr (Some m)"
    by (simp add: getFavorite_eq [OF inv'] found)
  have g2: "fst (getFavorite (reload ?s') k) = Inr (Some m)"
    by (simp add: getFavorite_eq [OF store_inv_reload [OF inv']] reloaded found)
  have s1: "fst (saveFavorite s m) = Inr ()"
    by (simp add: saved)
  from s1 g1 g2 inv' one keys others show ?thesis by blast
qed

text \<open>
  Saving the meal over the older snapshot stored under the same id.
\<close>

theorem save_then_get_witness:
  "store_inv one_favorite \<and> teriyaki ''idMeal'' = Some ''52772''
   \<and> fst (saveFavorite one_favorite teriyaki) = Inr ()
   \<and> fst (getFavorite (snd (saveFavorite one_favorite teriyaki)) ''52772'') = Inr (Some teriyaki)
   \<and> length (filter (\<lambda>e. fst e = ''52772'') (records (snd (saveFavorite one_favorite teriyaki)))) = 1
   \<and> set (map fst (records (snd (saveFavorite one_favorite teriyaki)))) = {''52772''}"
proof -
  have inv: "store_inv one_favorite"
    by (simp add: store_inv_def one_favorite_def records_def)
  have key: "teriyaki ''idMeal'' = Some ''52772''"
    by (simp add: teriyaki_def)
  have keys: "set (map fst (records one_favorite)) = {''52772''}"
    by (simp add: one_favorite_def records_def)
  show ?thesis
    using inv key save_then_get [of one_favorite teriyaki "''52772''", OF inv key] keys
    by simp
qed

text \<open>
  Claim C9. In every state with the store's invariant (every state the module reaches has
  it), for an id that the store does not hold:
  \<open>removeFavorite\<close> succeeds and leaves the records as they were, and \<open>getFavorite\<close>
  succeeds with \<open>undefined\<close> and leaves the records as they were.
\<close>

theorem remove_absent_noop:
  assumes inv: "store_inv s" and absent: "k \<notin> fst ` set (records s)"
  shows "fst (removeFavorite s k) = Inr ()
       \<and> records (snd (removeFavorite s k)) = records s
       \<and> store_inv (snd (removeFavorite s k))
       \<and> fst (getFavorite s k) = Inr None
       \<and> records (snd (getFavorite s k)) = records s"
proof -
  have removed: "removeFavorite s k
      = (Inr (), (getDB s)\<lparr>favorites := Some (AList.delete k (records s))\<rparr>)"
    using records_removeFavorite [OF inv] .
  have same: "AList.delete k (records s) = records s"
    using absent by simp
  have r1: "fst (removeFavorite s k) = Inr ()"
    by (simp add: removed)
  have "records (snd (removeFavorite s k)) = AList.delete k (records s)"
    by (simp add: removed records_def)
  with same have r2: "records (snd (removeFavorite s k)) = records s"
    by simp
  have r3: "store_inv (snd (removeFavorite s k))"
    using store_inv_removeFavorite [OF inv] .
  have "map_of (records s) k = None"
    using absent by (simp add: map_of_eq_None_iff)
  then have g1: "fst (getFavorite s k) = Inr None"
    by (simp add: getFavorite_eq [OF inv])
  have g2: "records (snd (getFavorite s k)) = records s"
    using favorites_getDB [OF inv] by (simp add: getFavorite_eq [OF inv] records_def)
  from r1 r2 r3 g1 g2 show ?thesis by blast
qed

text \<open>
  An id that is not in a store of one record.
\<close>

theorem remove_absent_noop_witness:
  "store_inv one_favorite \<and> ''52940'' \<notin> fst ` set (records one_favorite)
   \<and> fst (removeFavorite one_favorite ''52940'') = Inr ()
   \<and> records (snd (removeFavorite one_favorite ''52940'')) = [(''52772'', teriyaki_old)]
   \<and> fst (getFavorite one_favorite ''52940'') = Inr None"
proof -
  have inv: "store_inv one_favorite"
    by (simp add: store_inv_def one_favorite_def records_def)
  have recs: "records one_favorite = [(''52772'', teriyaki_old)]"
    by (simp add: one_favorite_def records_def)
  have absent: "''52940'' \<notin> fst ` set (records one_favorite)"
    by (simp add: recs)
  show ?thesis
    using inv absent remove_absent_noop [OF inv absent] recs
    by simp
qed

section \<open>searchMeals\<close>

lemma dropWhile_all: "(\<forall>x \<in> set (dropWhile P xs). P x) \<longleftrightarrow> (\<forall>x \<in> set xs. P x)"
proof
  assume all: "\<forall>x \<in> set (dropWhile P xs). P x"
  have "dropWhile P xs = []"
  proof (rule ccontr)
    assume ne: "dropWhile P xs \<noteq> []"
    then have "\<not> P (hd (dropWhile P xs))"
      by (rule hd_dropWhile)
    moreover have "hd (dropWhile P xs) \<in> set (dropWhile P xs)"
      using ne by simp
    ultimately show False
      using all by blast
  qed
  then show "\<forall>x \<in> set xs. P x"
    by (simp add: dropWhile_eq_Nil_conv)
next
  assume "\<forall>x \<in> set xs. P x"
  then show "\<forall>x \<in> set (dropWhile P xs). P x"
    by (meson set_dropWhileD)
qed

lemma trim_empty_iff: "trim q = [] \<longleftrightarrow> (\<forall>c \<in> set q. white_space c)"
proof -
  have "trim q = [] \<longleftrightarrow> (\<forall>c \<in> set (dropWhile white_space q). white_space c)"
    by (simp add: trim_def dropWhile_eq_Nil_conv)
  then show ?thesis
    by (simp add: dropWhile_all)
qed

text \<open>
  Claim C10. For a query made of white space only (the empty query included),
  \<open>searchMeals\<close> returns the empty list and fetches nothing. For any other query that
  \<open>encodeURIComponent\<close> accepts, when the answer to the search URL is \<open>ok\<close> and its JSON
  is \<open>{ meals: null }\<close>, it returns the empty list, having fetched that one URL.
\<close>

theorem searchMeals_blank_or_null:
  "((\<forall>c \<in> set query. white_space c) \<longrightarrow>
       searchMeals encodeURIComponent fetch query = (Inr [], []))
   \<and> ((\<exists>c \<in> set query. \<not> white_space c) \<and> encodeURIComponent query = Some q
        \<and> fetch (''/api/search?s='' @ q) = Some \<lparr>api_ok = True, api_json = Some None\<rparr> \<longrightarrow>
       searchMeals encodeURIComponent fetch query = (Inr [], [''/api/search?s='' @ q]))"
proof (intro conjI impI)
  assume "\<forall>c \<in> set query. white_space c"
  then have "trim query = []"
    by (simp add: trim_empty_iff)
  then show "searchMeals encodeURIComponent fetch query = (Inr [], [])"
    by (simp add: searchMeals_def)
next
  assume h: "(\<exists>c \<in> set query. \<not> white_space c) \<and> encodeURIComponent query = Some q
        \<and> fetch (''/api/search?s='' @ q) = Some \<lparr>api_ok = True, api_json = Some None\<rparr>"
  then have "trim query \<noteq> []"
    by (simp add: trim_empty_iff)
  with h show "searchMeals encodeURIComponent fetch query = (Inr [], [''/api/search?s='' @ q])"
    by (simp add: searchMeals_def API_BASE_def)
qed

text \<open>
  A query of a space, a tab, a no-break space and an ideographic space; and the query
  \<open> pie\<close> answered with \<open>{ meals: null }\<close>.
\<close>

theorem searchMeals_blank_or_null_witness:
  "searchMeals (\<lambda>q. Some ''pie'') (\<lambda>u. Some \<lparr>api_ok = True, api_json = Some None\<rparr>)
      [0x20, 0x9, 0xA0, 0x3000] = (Inr [], [])
   \<and> searchMeals (\<lambda>q. Some ''pie'') (\<lambda>u. Some \<lparr>api_ok = True, api_json = Some None\<rparr>)
      [0x20, 0x70, 0x69, 0x65] = (Inr [], [''/api/search?s=pie''])"
proof -
  have blank: "\<forall>c \<in> set [0x20, 0x9, 0xA0, 0x3000 :: 16 word]. white_space c"
    by (simp add: white_space_def)
  have word: "\<exists>c \<in> set [0x20, 0x70, 0x69, 0x65 :: 16 word]. \<not> white_space c"
    by (simp add: white_space_def)
  show ?thesis
    using blank word
      searchMeals_blank_or_null [of "[0x20, 0x9, 0xA0, 0x3000]" "\<lambda>q. Some ''pie''"
        "\<lambda>u. Some \<lparr>api_ok = True, api_json = Some None\<rparr>"]
      searchMeals_blank_or_null [of "[0x20, 0x70, 0x69, 0x65]" "\<lambda>q. Some ''pie''"
        "\<lambda>u. Some \<lparr>api_ok = True, api_json = Some None\<rparr>" "''pie''"]
    by simp
qed

end
